theory Spec2Isabelle
  imports Complex_Main
begin

section \<open>The tiered pricing engine of calculatorapp.py\<close>

text \<open>
  The module defines a constant tier table \<open>TIERS\<close> and a class \<open>PricingCalculator\<close>
  with three pricing methods. Python numbers (unbounded ints and floats) are modelled
  as exact rationals: the specification prescribes exact rational or decimal
  arithmetic, and every constant of the source is a finite decimal. Rounding of IEEE
  doubles is therefore outside this model.

  A method returns \<open>Inr v\<close> when the Python returns \<open>v\<close> and \<open>Inl e\<close> when it raises.
\<close>

subsection \<open>Data\<close>

text \<open>A tier is a dict with the keys \<open>lower\<close>, \<open>upper\<close> and \<open>rate\<close>.\<close>

record tier =
  lower :: rat
  upper :: rat
  rate :: rat

definition TIERS :: "tier list" where
  "TIERS =
    [\<lparr>lower = 0, upper = 125000, rate = 0.0330\<rparr>,
     \<lparr>lower = 125001, upper = 250000, rate = 0.0315\<rparr>,
     \<lparr>lower = 250001, upper = 416667, rate = 0.0297\<rparr>,
     \<lparr>lower = 416668, upper = 833333, rate = 0.0264\<rparr>,
     \<lparr>lower = 833334, upper = 1666667, rate = 0.0231\<rparr>,
     \<lparr>lower = 1666668, upper = 2500000, rate = 0.0215\<rparr>,
     \<lparr>lower = 2500001, upper = 3333333, rate = 0.0198\<rparr>,
     \<lparr>lower = 3333334, upper = 4166667, rate = 0.0182\<rparr>,
     \<lparr>lower = 4166668, upper = 6250000, rate = 0.0165\<rparr>,
     \<lparr>lower = 6250001, upper = 8333333, rate = 0.0132\<rparr>,
     \<lparr>lower = 8333334, upper = 12500000, rate = 0.0116\<rparr>,
     \<lparr>lower = 12500001, upper = 16666667, rate = 0.0107\<rparr>,
     \<lparr>lower = 16666668, upper = 20833333, rate = 0.0100\<rparr>,
     \<lparr>lower = 20833334, upper = 25000000, rate = 0.0095\<rparr>,
     \<lparr>lower = 25000001, upper = 29166667, rate = 0.0091\<rparr>,
     \<lparr>lower = 29166668, upper = 33333333, rate = 0.0088\<rparr>,
     \<lparr>lower = 33333334, upper = 41666667, rate = 0.0084\<rparr>,
     \<lparr>lower = 41666668, upper = 62500000, rate = 0.0069\<rparr>,
     \<lparr>lower = 62500001, upper = 83333333, rate = 0.0062\<rparr>,
     \<lparr>lower = 83333334, upper = 104166667, rate = 0.0054\<rparr>,
     \<lparr>lower = 104166668, upper = 125000000, rate = 0.0050\<rparr>,
     \<lparr>lower = 125000001, upper = 145833333, rate = 0.0046\<rparr>,
     \<lparr>lower = 145833334, upper = 166666667, rate = 0.0043\<rparr>,
     \<lparr>lower = 166666668, upper = 187500000, rate = 0.0040\<rparr>,
     \<lparr>lower = 187500001, upper = 208333333, rate = 0.0038\<rparr>,
     \<lparr>lower = 208333334, upper = 250000000, rate = 0.0034\<rparr>]"

text \<open>
  The exceptions of the model. \<open>IndexError\<close> and \<open>ValueError\<close> are what Python's
  \<open>self.tiers[-1]\<close> and \<open>list.index\<close> raise. \<open>InvalidArgument\<close> and
  \<open>ConfigurationError\<close> are the error kinds the specification names; no statement of
  the source raises them, so no definition below produces them.
\<close>

datatype error = IndexError | ValueError | InvalidArgument | ConfigurationError

text \<open>
  An instance of \<open>PricingCalculator\<close>: the list it was given, and the pandas frame
  built from the same rows (no method reads the frame).
\<close>

record PricingCalculator =
  tiers :: "tier list"
  df_tiers :: "tier list"

subsection \<open>Python helpers\<close>

text \<open>\<open>xs[-1]\<close>: the last element, \<open>IndexError\<close> on the empty list.\<close>

definition py_last :: "'a list \<Rightarrow> error + 'a" where
  "py_last xs = (case xs of [] \<Rightarrow> Inl IndexError | _ \<Rightarrow> Inr (last xs))"

text \<open>
  \<open>next((x for x in xs if P(x)), d)\<close>: the first element satisfying \<open>P\<close>, the default
  \<open>d\<close> when there is none. Python evaluates \<open>d\<close> before the call, which is why the
  callers below compute \<open>py_last\<close> first.
\<close>

definition next_default :: "('a \<Rightarrow> bool) \<Rightarrow> 'a list \<Rightarrow> 'a \<Rightarrow> 'a" where
  "next_default P xs d = (case find P xs of Some x \<Rightarrow> x | None \<Rightarrow> d)"

text \<open>\<open>xs.index(x)\<close>: the position of the first element equal to \<open>x\<close>.\<close>

fun index_of :: "'a list \<Rightarrow> 'a \<Rightarrow> nat option" where
  "index_of [] x = None"
| "index_of (y # ys) x = (if y = x then Some 0 else map_option Suc (index_of ys x))"

subsection \<open>The methods\<close>

text \<open>\<open>__init__\<close> stores its argument and builds the frame; it checks nothing.\<close>

definition PricingCalculator_init :: "tier list \<Rightarrow> error + PricingCalculator" where
  "PricingCalculator_init ts = Inr \<lparr>tiers = ts, df_tiers = ts\<rparr>"

text \<open>
  The \<open>for\<close> loop of \<open>calculate_flex_price\<close>, with its two variables \<open>total\<close>
  (written \<open>total'\<close>, \<open>total\<close> being a constant of HOL) and \<open>remaining\<close>; the
  \<open>break\<close> returns the total reached so far.
\<close>

fun flex_loop :: "tier list \<Rightarrow> rat \<Rightarrow> rat \<Rightarrow> rat" where
  "flex_loop [] total' remaining = total'"
| "flex_loop (t # ts) total' remaining =
     (if remaining \<le> 0 then total'
      else let tier_spend = min remaining (upper t - lower t)
           in flex_loop ts (total' + tier_spend * rate t) (remaining - tier_spend))"

definition calculate_flex_price :: "PricingCalculator \<Rightarrow> rat \<Rightarrow> error + rat" where
  "calculate_flex_price self monthly_spend =
     (let total' = flex_loop (tiers self) 0 monthly_spend
      in if monthly_spend \<le> 125000 then Inr (max total' 2500) else Inr total')"

definition calculate_commit_price :: "PricingCalculator \<Rightarrow> rat \<Rightarrow> rat \<Rightarrow> error + rat" where
  "calculate_commit_price self monthly_spend commit_amount =
     (if commit_amount = 0 then calculate_flex_price self monthly_spend
      else case py_last (tiers self) of
        Inl e \<Rightarrow> Inl e
      | Inr d \<Rightarrow>
          (let commit_tier = next_default (\<lambda>t. upper t \<ge> commit_amount) (tiers self) d;
               commit_rate = rate commit_tier;
               committed_amount = min monthly_spend commit_amount * commit_rate
           in (case (if monthly_spend > commit_amount
                     then calculate_flex_price self (monthly_spend - commit_amount)
                     else Inr 0) of
                 Inl e \<Rightarrow> Inl e
               | Inr overflow_amount \<Rightarrow> Inr (committed_amount + overflow_amount))))"

definition recommend_commit_tier :: "PricingCalculator \<Rightarrow> rat \<Rightarrow> error + rat" where
  "recommend_commit_tier self monthly_spend =
     (case py_last (tiers self) of
        Inl e \<Rightarrow> Inl e
      | Inr d \<Rightarrow>
          (let current_tier =
                 next_default (\<lambda>t. monthly_spend \<ge> lower t \<and> monthly_spend \<le> upper t)
                   (tiers self) d
           in (case index_of (tiers self) current_tier of
                 None \<Rightarrow> Inl ValueError
               | Some tier_index \<Rightarrow>
                   (let next_tier =
                          (if int tier_index < int (length (tiers self)) - 1
                           then Some (tiers self ! (tier_index + 1)) else None)
                    in (case next_tier of
                          Some nt \<Rightarrow>
                            (if monthly_spend > upper current_tier * 0.8
                             then Inr (upper nt) else Inr (upper current_tier))
                        | None \<Rightarrow> Inr (upper current_tier))))))"

text \<open>The calculator that \<open>main\<close> builds: \<open>PricingCalculator(TIERS)\<close>.\<close>

definition calculator :: PricingCalculator where
  "calculator = \<lparr>tiers = TIERS, df_tiers = TIERS\<rparr>"

subsection \<open>The specification's wording\<close>

text \<open>
  The piecewise accumulation as the specification words it: walk the tiers with
  \<open>remaining = spend\<close>, bill \<open>min(remaining, tier.upper - tier.lower)\<close> at the tier's
  rate, until \<open>remaining\<close> reaches 0 or the table ends; then the minimum-invoice floor.
\<close>

fun spec_accumulate :: "tier list \<Rightarrow> rat \<Rightarrow> rat" where
  "spec_accumulate [] remaining = 0"
| "spec_accumulate (t # ts) remaining =
     (if remaining = 0 then 0
      else let tierSpend = min remaining (upper t - lower t)
           in tierSpend * rate t + spec_accumulate ts (remaining - tierSpend))"

definition spec_flexPrice :: "tier list \<Rightarrow> rat \<Rightarrow> rat" where
  "spec_flexPrice ts spend =
     (let accumulated = spec_accumulate ts spend
      in if spend \<le> 125000 then max accumulated 2500 else accumulated)"

text \<open>
  Two of the table invariants of the specification, over adjacent pairs: contiguity
  (\<open>tier[i+1].lower == tier[i].upper + 1\<close>) and strictly decreasing rates.
\<close>

fun contiguous :: "tier list \<Rightarrow> bool" where
  "contiguous (s # t # ts) = (lower t = upper s + 1 \<and> contiguous (t # ts))"
| "contiguous _ = True"

fun rates_decreasing :: "tier list \<Rightarrow> bool" where
  "rates_decreasing (s # t # ts) = (rate t < rate s \<and> rates_decreasing (t # ts))"
| "rates_decreasing _ = True"

section \<open>Results\<close>

subsection \<open>Helper facts\<close>

lemma flex_loop_nonpos: "remaining \<le> 0 \<Longrightarrow> flex_loop ts acc remaining = acc"
  by (cases ts) simp_all

lemma flex_price_negative:
  "monthly_spend < 0 \<Longrightarrow> calculate_flex_price self monthly_spend = Inr 2500"
  by (simp add: calculate_flex_price_def flex_loop_nonpos)

lemma TIERS_bounds: "\<forall>t\<in>set TIERS. lower t \<le> upper t"
  by (simp add: TIERS_def)

lemma flex_loop_accumulate:
  "0 \<le> remaining \<Longrightarrow> \<forall>t\<in>set ts. lower t \<le> upper t \<Longrightarrow>
   flex_loop ts acc remaining = acc + spec_accumulate ts remaining"
proof (induction ts arbitrary: acc remaining)
  case Nil
  then show ?case by simp
next
  case (Cons t ts)
  show ?case
  proof (cases "remaining = 0")
    case True
    then show ?thesis by simp
  next
    case False
    with Cons.prems have pos: "0 < remaining" by simp
    let ?s = "min remaining (upper t - lower t)"
    from Cons.prems have "0 \<le> remaining - ?s" by simp
    moreover from Cons.prems have "\<forall>t\<in>set ts. lower t \<le> upper t" by simp
    ultimately have "flex_loop ts (acc + ?s * rate t) (remaining - ?s)
        = acc + ?s * rate t + spec_accumulate ts (remaining - ?s)"
      by (rule Cons.IH)
    with pos False show ?thesis by (simp add: Let_def)
  qed
qed

lemma flex_TIERS_50000: "calculate_flex_price calculator 50000 = Inr 2500"
  by (simp add: calculate_flex_price_def calculator_def TIERS_def)

lemma flex_TIERS_200000: "calculate_flex_price calculator 200000 = Inr 6487.5"
  by (simp add: calculate_flex_price_def calculator_def TIERS_def)

lemma flex_loop_ge_acc:
  "\<forall>t\<in>set ts. lower t \<le> upper t \<and> 0 \<le> rate t \<Longrightarrow> acc \<le> flex_loop ts acc remaining"
proof (induction ts arbitrary: acc remaining)
  case Nil
  then show ?case by simp
next
  case (Cons t ts)
  show ?case
  proof (cases "remaining \<le> 0")
    case True
    then show ?thesis by simp
  next
    case False
    let ?s = "min remaining (upper t - lower t)"
    from False Cons.prems have "0 \<le> ?s" and "0 \<le> rate t" by simp_all
    then have "acc \<le> acc + ?s * rate t" by simp
    also from Cons.prems have "\<dots> \<le> flex_loop ts (acc + ?s * rate t) (remaining - ?s)"
      by (intro Cons.IH) simp
    finally show ?thesis using False by (simp add: Let_def)
  qed
qed

lemma flex_loop_mono:
  "\<forall>t\<in>set ts. lower t \<le> upper t \<and> 0 \<le> rate t \<Longrightarrow> a \<le> b \<Longrightarrow> acc \<le> acc' \<Longrightarrow>
   flex_loop ts acc a \<le> flex_loop ts acc' b"
proof (induction ts arbitrary: acc acc' a b)
  case Nil
  then show ?case by simp
next
  case (Cons t ts)
  from Cons.prems have tl: "\<forall>t\<in>set ts. lower t \<le> upper t \<and> 0 \<le> rate t"
    and cap: "lower t \<le> upper t" and r: "0 \<le> rate t" by simp_all
  show ?case
  proof (cases "a \<le> 0")
    case True
    have "acc' \<le> flex_loop (t # ts) acc' b"
      using Cons.prems(1) by (rule flex_loop_ge_acc)
    with True Cons.prems(3) show ?thesis by simp
  next
    case False
    with Cons.prems have b: "\<not> b \<le> 0" by simp
    let ?sa = "min a (upper t - lower t)" and ?sb = "min b (upper t - lower t)"
    from Cons.prems have le: "?sa \<le> ?sb" by simp
    from Cons.prems have rem: "a - ?sa \<le> b - ?sb" by (simp add: min_def)
    from le r have "?sa * rate t \<le> ?sb * rate t" by (rule mult_right_mono)
    with Cons.prems have "acc + ?sa * rate t \<le> acc' + ?sb * rate t" by simp
    with tl rem have "flex_loop ts (acc + ?sa * rate t) (a - ?sa)
        \<le> flex_loop ts (acc' + ?sb * rate t) (b - ?sb)"
      by (rule Cons.IH)
    with False b show ?thesis by (simp add: Let_def)
  qed
qed

lemma TIERS_caps_rates: "\<forall>t\<in>set TIERS. lower t \<le> upper t \<and> 0 \<le> rate t"
  by (simp add: TIERS_def)

lemma flex_loop_TIERS_125000: "flex_loop TIERS 0 125000 = 4125"
  by (simp add: TIERS_def)

lemma TIERS_sorted: "sorted_wrt (\<lambda>s t. upper s < lower t) TIERS"
  by (simp add: TIERS_def)

lemma first_upper_is_containing:
  "sorted_wrt (\<lambda>s t. upper s < lower t) ts \<Longrightarrow> t \<in> set ts \<Longrightarrow> lower t \<le> c \<Longrightarrow> c \<le> upper t
   \<Longrightarrow> find (\<lambda>t. c \<le> upper t) ts = Some t"
proof (induction ts)
  case Nil
  then show ?case by simp
next
  case (Cons x xs)
  show ?case
  proof (cases "t = x")
    case True
    with Cons.prems show ?thesis by simp
  next
    case False
    with Cons.prems have mem: "t \<in> set xs" by simp
    with Cons.prems have "upper x < lower t" by simp
    with Cons.prems have "\<not> c \<le> upper x" by simp
    moreover from Cons.prems mem have "find (\<lambda>t. c \<le> upper t) xs = Some t"
      by (intro Cons.IH) simp_all
    ultimately show ?thesis by simp
  qed
qed

lemma py_last_nonempty: "xs \<noteq> [] \<Longrightarrow> py_last xs = Inr (last xs)"
  by (cases xs) (simp_all add: py_last_def)

lemma commit_price_unfold:
  assumes "commit \<noteq> 0" and "tiers self \<noteq> []"
  shows "calculate_commit_price self spend commit =
     (case (if commit < spend then calculate_flex_price self (spend - commit) else Inr 0) of
        Inl e \<Rightarrow> Inl e
      | Inr overflow \<Rightarrow>
          Inr (min spend commit
                 * rate (case find (\<lambda>t. commit \<le> upper t) (tiers self) of
                           Some t \<Rightarrow> t | None \<Rightarrow> last (tiers self))
               + overflow))"
  using assms
  by (simp add: calculate_commit_price_def py_last_nonempty next_default_def Let_def)

lemma flex_price_returns: "\<exists>c. calculate_flex_price self spend = Inr c"
  by (simp add: calculate_flex_price_def Let_def)

lemma commit_TIERS_1000_50000: "calculate_commit_price calculator 1000 50000 = Inr 33"
  by (simp add: calculate_commit_price_def calculate_flex_price_def py_last_def
      next_default_def calculator_def TIERS_def)

lemma commit_TIERS_60000_50000: "calculate_commit_price calculator 60000 50000 = Inr 4150"
  by (simp add: calculate_commit_price_def calculate_flex_price_def py_last_def
      next_default_def calculator_def TIERS_def)

lemma commit_price_returns:
  assumes "tiers self \<noteq> []"
  shows "\<exists>c. calculate_commit_price self spend commit = Inr c"
proof (cases "commit = 0")
  case True
  then show ?thesis using flex_price_returns [of self spend]
    by (simp add: calculate_commit_price_def)
next
  case False
  obtain c where "calculate_flex_price self (spend - commit) = Inr c"
    using flex_price_returns by blast
  then show ?thesis
    by (simp add: commit_price_unfold [OF False assms])
qed

lemma TIERS_last: "last TIERS = \<lparr>lower = 208333334, upper = 250000000, rate = 0.0034\<rparr>"
  by (simp add: TIERS_def)

lemma TIERS_index_last: "index_of TIERS (last TIERS) = Some 25"
  by (simp add: TIERS_def)

lemma TIERS_length: "length TIERS = 26"
  by (simp add: TIERS_def)

lemma TIERS_no_negative:
  "spend < 0 \<Longrightarrow> find (\<lambda>t. lower t \<le> spend \<and> spend \<le> upper t) TIERS = None"
  by (simp add: TIERS_def)

lemma recommend_negative:
  assumes "spend < 0"
  shows "recommend_commit_tier calculator spend = Inr 250000000"
proof -
  have "next_default (\<lambda>t. lower t \<le> spend \<and> spend \<le> upper t) TIERS (last TIERS) = last TIERS"
    using TIERS_no_negative [OF assms] by (simp add: next_default_def)
  moreover have "py_last TIERS = Inr (last TIERS)"
    by (rule py_last_nonempty) (simp add: TIERS_def)
  ultimately show ?thesis
    by (simp add: recommend_commit_tier_def calculator_def TIERS_index_last TIERS_length)
       (simp add: TIERS_last)
qed

lemma index_of_first:
  "x \<notin> set pre \<Longrightarrow> index_of (pre @ x # post) x = Some (length pre)"
  by (induction pre) auto

lemma find_first_split:
  "find P xs = Some x \<Longrightarrow> \<exists>pre post. xs = pre @ x # post \<and> P x \<and> (\<forall>y\<in>set pre. \<not> P y)"
proof (induction xs)
  case Nil
  then show ?case by simp
next
  case (Cons a xs)
  show ?case
  proof (cases "P a")
    case True
    with Cons.prems have "a # xs = [] @ x # xs \<and> P x \<and> (\<forall>y\<in>set []. \<not> P y)" by simp
    then show ?thesis by blast
  next
    case False
    with Cons.prems have "find P xs = Some x" by simp
    then obtain pre post where "xs = pre @ x # post" "P x" "\<forall>y\<in>set pre. \<not> P y"
      using Cons.IH by blast
    with False have "a # xs = (a # pre) @ x # post \<and> P x \<and> (\<forall>y\<in>set (a # pre). \<not> P y)"
      by simp
    then show ?thesis by blast
  qed
qed

lemma recommend_at_position:
  assumes split: "tiers self = pre @ cur # post"
    and fresh: "cur \<notin> set pre"
    and cur: "next_default (\<lambda>t. lower t \<le> spend \<and> spend \<le> upper t) (tiers self)
                (last (tiers self)) = cur"
  shows "recommend_commit_tier self spend =
     Inr (case post of
            [] \<Rightarrow> upper cur
          | next_tier # _ \<Rightarrow>
              if upper cur * 0.8 < spend then upper next_tier else upper cur)"
proof -
  from split have ne: "tiers self \<noteq> []" by simp
  have idx: "index_of (tiers self) cur = Some (length pre)"
    using fresh by (simp add: split index_of_first)
  have len: "length (tiers self) = length pre + 1 + length post"
    by (simp add: split)
  have nth: "post \<noteq> [] \<Longrightarrow> tiers self ! (length pre + 1) = hd post"
    by (cases post) (simp_all add: split nth_append)
  show ?thesis
  proof (cases post)
    case Nil
    with cur idx len show ?thesis
      by (simp add: recommend_commit_tier_def py_last_nonempty [OF ne] Let_def)
  next
    case (Cons nt rest)
    with nth have "tiers self ! (length pre + 1) = nt" by simp
    with cur idx len Cons show ?thesis
      by (simp add: recommend_commit_tier_def py_last_nonempty [OF ne] Let_def)
  qed
qed

lemma recommend_TIERS_110000: "recommend_commit_tier calculator 110000 = Inr 250000"
  by (simp add: recommend_commit_tier_def py_last_def next_default_def calculator_def TIERS_def)

lemma TIERS_distinct: "distinct TIERS"
  by (simp add: TIERS_def)

subsection \<open>Flex price\<close>

text \<open>
  Claim C1. For every spend \<open>\<ge> 0\<close>, on every table whose tiers have
  \<open>lower \<le> upper\<close> (the shipped table is one), \<open>calculate_flex_price\<close> returns the
  piecewise tier accumulation of the specification, clipped to \<open>max(accumulated, 2500)\<close>
  when the spend is at most 125000; on the shipped table the flex price of 50000 is
  2500 and that of 200000 is 6487.5.
\<close>

theorem flex_price_is_tier_accumulation:
  assumes "0 \<le> spend" and "\<forall>t\<in>set (tiers self). lower t \<le> upper t"
  shows "calculate_flex_price self spend = Inr (spec_flexPrice (tiers self) spend)
       \<and> calculate_flex_price calculator 50000 = Inr 2500
       \<and> calculate_flex_price calculator 200000 = Inr 6487.5"
proof -
  from assms have "flex_loop (tiers self) 0 spend = spec_accumulate (tiers self) spend"
    by (simp add: flex_loop_accumulate)
  then have "calculate_flex_price self spend = Inr (spec_flexPrice (tiers self) spend)"
    by (simp add: calculate_flex_price_def spec_flexPrice_def Let_def)
  then show ?thesis using flex_TIERS_50000 flex_TIERS_200000 by simp
qed

theorem flex_price_is_tier_accumulation_witness:
  "(0::rat) \<le> 200000 \<and> list_all (\<lambda>t. lower t \<le> upper t) (tiers calculator)
   \<and> calculate_flex_price calculator 200000 = Inr (spec_flexPrice TIERS 200000)
   \<and> spec_flexPrice TIERS 200000 = 6487.5"
proof -
  have b: "\<forall>t\<in>set (tiers calculator). lower t \<le> upper t"
    using TIERS_bounds by (simp add: calculator_def)
  have "calculate_flex_price calculator 200000 = Inr (spec_flexPrice (tiers calculator) 200000)"
    using flex_price_is_tier_accumulation [of 200000 calculator] b by simp
  moreover have "spec_flexPrice TIERS 200000 = 6487.5"
    by (simp add: spec_flexPrice_def TIERS_def)
  ultimately show ?thesis using b by (simp add: calculator_def list_all_iff)
qed

subsection \<open>Monotonicity\<close>

text \<open>
  Claim C5. On the shipped table the flex price is monotonically non-decreasing: for
  all \<open>0 \<le> a \<le> b\<close> both calls return, and the price of \<open>a\<close> is at most the price
  of \<open>b\<close>.
\<close>

theorem flex_price_monotone:
  assumes "0 \<le> a" and "a \<le> b"
  shows "\<exists>x y. calculate_flex_price calculator a = Inr x
             \<and> calculate_flex_price calculator b = Inr y \<and> x \<le> y"
proof -
  have m: "flex_loop TIERS 0 a \<le> flex_loop TIERS 0 b"
    using TIERS_caps_rates assms(2) by (rule flex_loop_mono) simp
  show ?thesis
  proof (cases "b \<le> 125000")
    case True
    with assms m show ?thesis
      by (simp add: calculate_flex_price_def calculator_def Let_def)
  next
    case False
    then have "flex_loop TIERS 0 125000 \<le> flex_loop TIERS 0 b"
      by (intro flex_loop_mono TIERS_caps_rates) simp_all
    then have "2500 \<le> flex_loop TIERS 0 b"
      by (simp add: flex_loop_TIERS_125000)
    with False m show ?thesis
      by (simp add: calculate_flex_price_def calculator_def Let_def)
  qed
qed

theorem flex_price_monotone_witness:
  "(0::rat) \<le> 50000 \<and> (50000::rat) \<le> 200000
   \<and> (\<exists>x y. calculate_flex_price calculator 50000 = Inr x
           \<and> calculate_flex_price calculator 200000 = Inr y \<and> x \<le> y)"
  using flex_price_monotone [of 50000 200000] by simp

subsection \<open>Zero commitment\<close>

text \<open>
  Claim C3. For every spend (in particular every spend \<open>\<ge> 0\<close>), the commit price at a
  commitment of 0 is exactly the flex price of that spend. It holds for every
  calculator, whatever its table.
\<close>

theorem commit_zero_is_flex:
  "calculate_commit_price self monthly_spend 0 = calculate_flex_price self monthly_spend"
  by (simp add: calculate_commit_price_def)

subsection \<open>Commit price\<close>

text \<open>
  Claim C2. For every spend \<open>\<ge> 0\<close> and every commitment \<open>> 0\<close>, on every non-empty
  table, the commit price is \<open>min(spend, commitAmount) * r + overflow\<close>, where \<open>r\<close> is
  the rate of the first tier whose upper bound is at least the commitment (the last
  tier when there is none) and \<open>overflow\<close> is the flex price of \<open>spend - commitAmount\<close>
  when the spend exceeds the commitment and 0 otherwise. No floor is applied to the
  sum: on the shipped table a spend of 1000 under a commitment of 50000 costs 33, and
  a spend of 60000 under the same commitment costs 1650 plus the floored overflow
  2500.
\<close>

theorem commit_price_formula:
  assumes "0 \<le> spend" and "0 < commit" and "tiers self \<noteq> []"
  shows "(\<exists>overflow.
            calculate_commit_price self spend commit =
              Inr (min spend commit
                     * rate (case find (\<lambda>t. commit \<le> upper t) (tiers self) of
                               Some t \<Rightarrow> t | None \<Rightarrow> last (tiers self))
                   + overflow)
          \<and> (if commit < spend
               then calculate_flex_price self (spend - commit) = Inr overflow
               else overflow = 0))
       \<and> calculate_commit_price calculator 1000 50000 = Inr 33
       \<and> calculate_commit_price calculator 60000 50000 = Inr 4150"
proof -
  from assms have ne: "commit \<noteq> 0" by simp
  obtain c where c: "calculate_flex_price self (spend - commit) = Inr c"
    using flex_price_returns by blast
  have "\<exists>overflow.
            calculate_commit_price self spend commit =
              Inr (min spend commit
                     * rate (case find (\<lambda>t. commit \<le> upper t) (tiers self) of
                               Some t \<Rightarrow> t | None \<Rightarrow> last (tiers self))
                   + overflow)
          \<and> (if commit < spend
               then calculate_flex_price self (spend - commit) = Inr overflow
               else overflow = 0)"
  proof (cases "commit < spend")
    case True
    with c show ?thesis
      by (simp add: commit_price_unfold [OF ne assms(3)])
  next
    case False
    then show ?thesis
      by (simp add: commit_price_unfold [OF ne assms(3)])
  qed
  then show ?thesis using commit_TIERS_1000_50000 commit_TIERS_60000_50000 by simp
qed

theorem commit_price_formula_witness:
  "(0::rat) \<le> 60000 \<and> (0::rat) < 50000 \<and> tiers calculator \<noteq> []
   \<and> (\<exists>overflow.
          calculate_commit_price calculator 60000 50000 =
              Inr (min 60000 50000
                     * rate (case find (\<lambda>t. 50000 \<le> upper t) (tiers calculator) of
                               Some t \<Rightarrow> t | None \<Rightarrow> last (tiers calculator))
                   + overflow)
          \<and> calculate_flex_price calculator (60000 - 50000) = Inr overflow)"
proof -
  have ne: "tiers calculator \<noteq> []" by (simp add: calculator_def TIERS_def)
  have h: "(0::rat) \<le> 60000" "(0::rat) < 50000" by simp_all
  from commit_price_formula [OF h ne, THEN conjunct1] ne show ?thesis by simp
qed

text \<open>
  Claim C6, as stated, fails at a commitment of 0: a spend of 0 is covered by a
  commitment of 0, the first tier contains 0, and the commit price is the flex price
  2500, not \<open>min(0, 0)\<close> times the first tier's rate.
\<close>

theorem full_commit_zero_counterexample:
  "calculate_commit_price calculator 0 0 = Inr 2500
   \<and> lower (TIERS ! 0) \<le> 0 \<and> 0 \<le> upper (TIERS ! 0)
   \<and> calculate_commit_price calculator 0 0 \<noteq> Inr (min 0 0 * rate (TIERS ! 0))"
  by (simp add: calculate_commit_price_def calculate_flex_price_def calculator_def TIERS_def)

text \<open>
  Claim C6, amended. On the shipped table, for every commitment \<open>> 0\<close> and every spend
  at most the commitment, the commit price is \<open>min(spend, commitAmount)\<close> times the
  rate of the tier containing the commitment, with no overflow added.
\<close>

theorem full_commit_coverage:
  assumes "0 < commit" and "spend \<le> commit"
    and "t \<in> set TIERS" and "lower t \<le> commit" and "commit \<le> upper t"
  shows "calculate_commit_price calculator spend commit = Inr (min spend commit * rate t)"
proof -
  have "find (\<lambda>t. commit \<le> upper t) TIERS = Some t"
    using TIERS_sorted assms(3-5) by (rule first_upper_is_containing)
  moreover have "tiers calculator \<noteq> []" by (simp add: calculator_def TIERS_def)
  moreover from assms have "commit \<noteq> 0" by simp
  ultimately show ?thesis using assms(2)
    by (simp add: commit_price_unfold) (simp add: calculator_def)
qed

theorem full_commit_coverage_witness:
  "(0::rat) < 50000 \<and> (1000::rat) \<le> 50000 \<and> TIERS ! 0 \<in> set TIERS
   \<and> lower (TIERS ! 0) \<le> 50000 \<and> 50000 \<le> upper (TIERS ! 0)
   \<and> calculate_commit_price calculator 1000 50000 = Inr (min 1000 50000 * rate (TIERS ! 0))
   \<and> min 1000 50000 * rate (TIERS ! 0) = 33"
proof -
  have m: "TIERS ! 0 \<in> set TIERS" by (simp add: TIERS_def)
  have b: "lower (TIERS ! 0) \<le> 50000 \<and> 50000 \<le> upper (TIERS ! 0) \<and> rate (TIERS ! 0) = 0.033"
    by (simp add: TIERS_def)
  show ?thesis
    using full_commit_coverage [of 50000 1000 "TIERS ! 0"] m b by simp
qed

subsection \<open>Negative spend\<close>

text \<open>
  Claim C10. For every negative spend the flex price is exactly 2500: the loop breaks
  at once with a total of 0, and the floor branch applies because the spend is at most
  125000.
\<close>

theorem flex_negative_spend_is_floor:
  "monthly_spend < 0 \<Longrightarrow> calculate_flex_price calculator monthly_spend = Inr 2500"
  by (rule flex_price_negative)

theorem flex_negative_spend_is_floor_witness:
  "(-1 :: rat) < 0 \<and> calculate_flex_price calculator (-1) = Inr 2500"
  using flex_negative_spend_is_floor [of "-1"] by simp

text \<open>
  Claim C4, as stated, fails: no method checks the sign of its arguments. On the
  shipped table a spend of \<open>-1\<close> has the flex price 2500 and the recommendation
  250000000, a spend of \<open>-1000\<close> under a commitment of 50000 costs \<open>-33\<close>, and a spend
  of 1000 under a commitment of \<open>-5\<close> costs 2499.835; none of the calls raises.
\<close>

theorem negative_inputs_counterexample:
  "calculate_flex_price calculator (-1) = Inr 2500
   \<and> calculate_commit_price calculator (-1000) 50000 = Inr (-33)
   \<and> calculate_commit_price calculator 1000 (-5) = Inr 2499.835
   \<and> recommend_commit_tier calculator (-1) = Inr 250000000"
proof -
  have "calculate_flex_price calculator (-1) = Inr 2500"
    by (simp add: flex_price_negative)
  moreover have "calculate_commit_price calculator (-1000) 50000 = Inr (-33)"
    by (simp add: calculate_commit_price_def calculate_flex_price_def py_last_def
        next_default_def calculator_def TIERS_def)
  moreover have "calculate_commit_price calculator 1000 (-5) = Inr 2499.835"
    by (simp add: calculate_commit_price_def calculate_flex_price_def py_last_def
        next_default_def calculator_def TIERS_def)
  moreover have "recommend_commit_tier calculator (-1) = Inr 250000000"
    by (simp add: recommend_negative)
  ultimately show ?thesis by simp
qed

text \<open>
  Claim C4, amended. On the shipped table no method raises on negative input: for
  every negative spend the flex price is 2500 and the recommendation is the last
  tier's upper bound 250000000, and whenever the spend or the commitment is negative
  the commit price is returned as a cost.
\<close>

theorem negative_inputs_return_costs:
  "(spend < 0 \<longrightarrow> calculate_flex_price calculator spend = Inr 2500
                 \<and> recommend_commit_tier calculator spend = Inr 250000000)
   \<and> (spend < 0 \<or> commit < 0 \<longrightarrow>
        (\<exists>c. calculate_commit_price calculator spend commit = Inr c))"
proof -
  have "tiers calculator \<noteq> []" by (simp add: calculator_def TIERS_def)
  then have "\<exists>c. calculate_commit_price calculator spend commit = Inr c"
    by (rule commit_price_returns)
  then show ?thesis by (simp add: flex_price_negative recommend_negative)
qed

theorem negative_inputs_return_costs_witness:
  "(-1::rat) < 0 \<and> calculate_flex_price calculator (-1) = Inr 2500
   \<and> recommend_commit_tier calculator (-1) = Inr 250000000
   \<and> (\<exists>c. calculate_commit_price calculator (-1) (-1) = Inr c)"
  using negative_inputs_return_costs [of "-1" "-1"] by simp

subsection \<open>Recommendation\<close>

text \<open>
  What the method does on a non-empty table of pairwise distinct tiers: the table
  splits at a current tier such that no tier before it contains the spend, and the
  current tier either contains the spend or is the last tier. The result is the next
  tier's upper bound when a next tier exists and the spend exceeds 0.8 times the
  current tier's upper bound, and the current tier's upper bound otherwise. On the
  shipped table the recommendation for 110000 is 250000.
\<close>

lemma recommend_commit_tier_position:
  assumes "0 \<le> spend" and "tiers self \<noteq> []" and "distinct (tiers self)"
  shows "(\<exists>pre current_tier post.
            tiers self = pre @ current_tier # post
          \<and> (\<forall>t\<in>set pre. \<not> (lower t \<le> spend \<and> spend \<le> upper t))
          \<and> ((lower current_tier \<le> spend \<and> spend \<le> upper current_tier) \<or> post = [])
          \<and> ((\<forall>t\<in>set (tiers self). upper t < spend) \<longrightarrow> post = [])
          \<and> recommend_commit_tier self spend =
              Inr (case post of
                     [] \<Rightarrow> upper current_tier
                   | next_tier # _ \<Rightarrow>
                       if upper current_tier * 0.8 < spend
                       then upper next_tier else upper current_tier))
       \<and> recommend_commit_tier calculator 110000 = Inr 250000"
proof -
  let ?P = "\<lambda>t. lower t \<le> spend \<and> spend \<le> upper t"
  let ?R = "\<lambda>cur post. Inr (case post of
                     [] \<Rightarrow> upper cur
                   | next_tier # _ \<Rightarrow>
                       if upper cur * 0.8 < spend
                       then upper next_tier else upper cur) :: error + rat"
  have "\<exists>pre cur post.
            tiers self = pre @ cur # post
          \<and> (\<forall>t\<in>set pre. \<not> ?P t)
          \<and> (?P cur \<or> post = [])
          \<and> ((\<forall>t\<in>set (tiers self). upper t < spend) \<longrightarrow> post = [])
          \<and> recommend_commit_tier self spend = ?R cur post"
  proof (cases "find ?P (tiers self)")
    case None
    then have none: "\<forall>t\<in>set (tiers self). \<not> ?P t"
      by (simp add: find_None_iff)
    let ?pre = "butlast (tiers self)" and ?cur = "last (tiers self)"
    from assms(2) have split: "tiers self = ?pre @ ?cur # []" by simp
    from assms(3) split have fresh: "?cur \<notin> set ?pre"
      by (metis distinct_append disjoint_iff list.set_intros(1))
    have "next_default ?P (tiers self) ?cur = ?cur"
      using None by (simp add: next_default_def)
    then have "recommend_commit_tier self spend = ?R ?cur []"
      using recommend_at_position [of self ?pre ?cur "[]" spend] split fresh by simp
    moreover from none have "\<forall>t\<in>set ?pre. \<not> ?P t"
      by (meson in_set_butlastD)
    ultimately show ?thesis using split by blast
  next
    case (Some cur)
    then obtain pre post where split: "tiers self = pre @ cur # post"
      and here: "?P cur" and before: "\<forall>t\<in>set pre. \<not> ?P t"
      using find_first_split [of ?P "tiers self" cur] by blast
    from here before have fresh: "cur \<notin> set pre" by blast
    have "next_default ?P (tiers self) (last (tiers self)) = cur"
      using Some by (simp add: next_default_def)
    with split fresh have res: "recommend_commit_tier self spend = ?R cur post"
      by (rule recommend_at_position)
    from here split have "\<not> (\<forall>t\<in>set (tiers self). upper t < spend)"
      by auto
    with split here before res show ?thesis by blast
  qed
  then show ?thesis using recommend_TIERS_110000 by simp
qed

text \<open>
  Claim C7 says that for every spend \<open>\<ge> 0\<close> the current tier is the first tier
  whose range contains the spend, with the last tier as the fallback when the spend
  exceeds every upper bound. The method misses the spends that lie between one tier's
  upper bound and the next tier's lower bound. A spend of 125000.5 is above the first
  tier's upper bound 125000 and below the second tier's lower bound 125001, so no tier
  contains it; it is below the second tier's upper bound, so it does not exceed every
  upper bound; yet the method falls back to the last tier and recommends 250000000.
  The lookup of \<open>calculate_commit_price\<close>, the first tier whose upper bound is at least
  the amount, finds the second tier for the same amount.
\<close>

theorem recommend_gap_falls_back:
  "upper (TIERS ! 0) < 125000.5 \<and> 125000.5 < lower (TIERS ! 1)
   \<and> 125000.5 < upper (TIERS ! 1)
   \<and> find (\<lambda>t. lower t \<le> 125000.5 \<and> 125000.5 \<le> upper t) TIERS = None
   \<and> find (\<lambda>t. 125000.5 \<le> upper t) TIERS = Some (TIERS ! 1)
   \<and> upper (last TIERS) = 250000000
   \<and> recommend_commit_tier calculator 125000.5 = Inr 250000000"
proof -
  have none: "find (\<lambda>t. lower t \<le> 125000.5 \<and> 125000.5 \<le> upper t) TIERS = None"
    by (simp add: TIERS_def)
  have "next_default (\<lambda>t. lower t \<le> 125000.5 \<and> 125000.5 \<le> upper t) TIERS (last TIERS)
          = last TIERS"
    using none by (simp add: next_default_def)
  moreover have "py_last TIERS = Inr (last TIERS)"
    by (rule py_last_nonempty) (simp add: TIERS_def)
  ultimately have "recommend_commit_tier calculator 125000.5 = Inr 250000000"
    by (simp add: recommend_commit_tier_def calculator_def TIERS_index_last TIERS_length)
       (simp add: TIERS_last)
  moreover have "upper (TIERS ! 0) < 125000.5 \<and> 125000.5 < lower (TIERS ! 1)
      \<and> 125000.5 < upper (TIERS ! 1) \<and> upper (last TIERS) = 250000000"
    by (simp add: TIERS_def)
  moreover have "find (\<lambda>t. 125000.5 \<le> upper t) TIERS = Some (TIERS ! 1)"
    by (simp add: TIERS_def)
  ultimately show ?thesis using none by simp
qed

subsection \<open>Construction and the shipped table\<close>

text \<open>
  Claim C8, as stated, fails: \<open>__init__\<close> validates nothing. The empty table is
  accepted, and so is a table whose only tier has its bounds in descending order and a
  non-zero lower bound.
\<close>

theorem init_accepts_empty_table:
  "PricingCalculator_init [] = Inr \<lparr>tiers = [], df_tiers = []\<rparr>
   \<and> PricingCalculator_init [\<lparr>lower = 10, upper = 5, rate = 0\<rparr>] \<noteq> Inl ConfigurationError"
  by (simp add: PricingCalculator_init_def)

text \<open>
  Claim C8, amended. Constructing a calculator accepts every tier sequence, valid or
  not: it returns an instance holding the sequence as given and never fails.
\<close>

theorem init_accepts_every_table:
  "\<exists>c. PricingCalculator_init ts = Inr c \<and> tiers c = ts"
  by (simp add: PricingCalculator_init_def)

text \<open>
  Claim C9. The shipped table has exactly 26 tiers, is non-empty, starts at lower
  bound 0 and ends at upper bound 250000000, is strictly ascending by lower bound with
  \<open>lower < upper\<close> in every tier, is contiguous (each lower bound is the previous upper
  bound plus 1), and its rates strictly decrease with the tier index.
\<close>

theorem shipped_table_invariants:
  "length TIERS = 26 \<and> TIERS \<noteq> []
   \<and> lower (hd TIERS) = 0 \<and> upper (last TIERS) = 250000000
   \<and> sorted_wrt (<) (map lower TIERS)
   \<and> list_all (\<lambda>t. lower t < upper t) TIERS
   \<and> contiguous TIERS
   \<and> rates_decreasing TIERS"
  by (simp add: TIERS_def)

end
